theory Spec2Isabelle
  imports Main "HOL-Library.Product_Lexorder" "HOL-Library.Multiset"
begin

section \<open>The sciplayer persistence engine over SQLite\<close>

text \<open>
  The Go package \<open>sqlite\<close> implements \<open>store.Store\<close> on top of \<open>database/sql\<close>
  and one SQLite connection (\<open>SetMaxOpenConns(1)\<close>). Every method is a short sequence of
  SQL statements; the model below gives each statement its effect on the two tables of the
  schema, and each Go method the control flow it has in the source, error branches
  included. What the source leaves to its environment is an explicit input:
  \<^item> the wall clock read by \<open>CURRENT_TIMESTAMP\<close> (\<open>now\<close>);
  \<^item> whether a call into the storage layer fails (\<open>fails\<close>, one flag per call site:
    disk error, cancelled context, busy database);
  \<^item> whether an ignored \<open>INSERT\<close> still consumes an \<open>AUTOINCREMENT\<close> value, which
    SQLite documents as possible (\<open>burns_rowid\<close>).
\<close>

subsection \<open>Rows, tables and the database\<close>

text \<open>\<open>store.Playlist\<close> of \<open>internal/store/store.go\<close>; a \<open>time.Time\<close> is a number of seconds.\<close>

record Playlist =
  Name :: string
  URL :: string
  CreatedAt :: nat

text \<open>The columns of \<open>devices\<close> and \<open>playlists\<close>, as \<open>migrate\<close> declares them.\<close>

record device_row =
  dev_id :: nat
  dev_identifier :: string
  dev_created_at :: nat

record playlist_row =
  pl_id :: nat
  pl_device_identifier :: string
  pl_name :: string
  pl_url :: string
  pl_created_at :: nat

text \<open>
  A table holds its rows in insertion order, with the largest row id ever handed out
  (the table's entry in \<open>sqlite_sequence\<close>, which \<open>AUTOINCREMENT\<close> maintains).
\<close>

record 'r table =
  tbl_rows :: "'r list"
  tbl_seq :: nat

text \<open>A database file: each table is there (\<open>Some\<close>) or has not been created (\<open>None\<close>).\<close>

record database =
  devices :: "device_row table option"
  playlists :: "playlist_row table option"

definition no_database :: database where
  "no_database = \<lparr>devices = None, playlists = None\<rparr>"

definition max_rowid :: nat where
  "max_rowid = 9223372036854775807"

subsection \<open>Errors\<close>

datatype sqlite_code =
    IOFault
  | NoSuchTable
  | Full
  | ConstraintUnique
  | ConstraintForeignKey

text \<open>
  Go error values: the sentinels \<open>store.ErrDeviceNotFound\<close>, \<open>sql.ErrNoRows\<close> and
  \<open>sql.ErrTxDone\<close>, an error of the driver, and the two shapes \<open>fmt.Errorf\<close> builds in
  the source: \<open>"<message>: %w"\<close> and the deferred
  \<open>"rolling back transaction: %v (original error: %w)"\<close>, which wraps the original error
  only.
\<close>

datatype go_error =
    ErrDeviceNotFound
  | ErrNoRows
  | ErrTxDone
  | DriverError sqlite_code
  | Errorf string go_error
  | ErrorfRollback go_error go_error

text \<open>\<open>errors.Is\<close>: the error itself or anything it wraps with \<open>%w\<close>.\<close>

fun errors_Is :: "go_error \<Rightarrow> go_error \<Rightarrow> bool" where
  "errors_Is (Errorf m e) t = (Errorf m e = t \<or> errors_Is e t)"
| "errors_Is (ErrorfRollback r e) t = (ErrorfRollback r e = t \<or> errors_Is e t)"
| "errors_Is e t = (e = t)"

subsection \<open>The environment of a call\<close>

text \<open>The calls into \<open>os\<close>, \<open>database/sql\<close> and the driver that can return an error.\<close>

datatype step =
    MkdirAll
  | SqlOpen
  | DbClose
  | ExecCreateDevices
  | ExecCreatePlaylists
  | BeginTx
  | QueryRowScan
  | ExecContext
  | RowsAffected
  | TxCommit
  | TxRollback
  | QueryContext
  | RowsScan nat
  | RowsErr

record env =
  now :: nat
  fails :: "step \<Rightarrow> bool"
  burns_rowid :: bool

text \<open>The environment in which nothing fails, at time \<open>t\<close>.\<close>

definition quiet :: "nat \<Rightarrow> env" where
  "quiet t = \<lparr>now = t, fails = (\<lambda>_. False), burns_rowid = False\<rparr>"

subsection \<open>The SQL statements of the source\<close>

definition identifiers :: "device_row table \<Rightarrow> string list" where
  "identifiers t = map dev_identifier (tbl_rows t)"

text \<open>
  \<open>SELECT 1 FROM devices WHERE device_identifier = ?\<close> followed by \<open>Scan\<close>: \<open>sql.ErrNoRows\<close>
  when no row matches.
\<close>

definition device_check :: "env \<Rightarrow> database \<Rightarrow> string \<Rightarrow> go_error option" where
  "device_check e db deviceID =
     (if fails e QueryRowScan then Some (DriverError IOFault)
      else case devices db of
        None \<Rightarrow> Some (DriverError NoSuchTable)
      | Some t \<Rightarrow> if deviceID \<in> set (identifiers t) then None else Some ErrNoRows)"

text \<open>What an \<open>INSERT\<close> does when the \<open>UNIQUE\<close> constraint is violated.\<close>

datatype on_conflict = Abort | DoNothing

text \<open>
  \<open>INSERT INTO devices (device_identifier) VALUES (?)\<close> with a conflict clause; returns
  the number of rows affected. The row id is drawn first (\<open>SQLITE_FULL\<close> once the largest
  id has been used), then \<open>UNIQUE\<close> is checked; \<open>created_at\<close> defaults to
  \<open>CURRENT_TIMESTAMP\<close>.
\<close>

definition insert_device ::
    "env \<Rightarrow> on_conflict \<Rightarrow> database \<Rightarrow> string \<Rightarrow> go_error + (nat \<times> database)" where
  "insert_device e c db deviceID =
     (if fails e ExecContext then Inl (DriverError IOFault)
      else case devices db of
        None \<Rightarrow> Inl (DriverError NoSuchTable)
      | Some t \<Rightarrow>
          if max_rowid \<le> tbl_seq t then Inl (DriverError Full)
          else if deviceID \<in> set (identifiers t) then
            (case c of
               Abort \<Rightarrow> Inl (DriverError ConstraintUnique)
             | DoNothing \<Rightarrow>
                 Inr (0, db\<lparr>devices :=
                   Some (t\<lparr>tbl_seq := (if burns_rowid e then Suc (tbl_seq t) else tbl_seq t)\<rparr>)\<rparr>))
          else
            Inr (1, db\<lparr>devices := Some
              \<lparr>tbl_rows = tbl_rows t @
                 [\<lparr>dev_id = Suc (tbl_seq t), dev_identifier = deviceID,
                   dev_created_at = now e\<rparr>],
               tbl_seq = Suc (tbl_seq t)\<rparr>\<rparr>))"

text \<open>
  \<open>INSERT INTO playlists (device_identifier, name, url) VALUES (?, ?, ?)\<close>. The
  connection is opened with \<open>_foreign_keys=on\<close>, so the \<open>FOREIGN KEY\<close> of the schema is
  enforced. \<open>NOT NULL\<close> cannot fail: a Go string is never \<open>NULL\<close>.
\<close>

definition insert_playlist ::
    "env \<Rightarrow> database \<Rightarrow> string \<Rightarrow> string \<Rightarrow> string \<Rightarrow> go_error + database" where
  "insert_playlist e db deviceID name playlistURL =
     (if fails e ExecContext then Inl (DriverError IOFault)
      else case playlists db of
        None \<Rightarrow> Inl (DriverError NoSuchTable)
      | Some p \<Rightarrow>
          if max_rowid \<le> tbl_seq p then Inl (DriverError Full)
          else
            (case devices db of
               None \<Rightarrow> Inl (DriverError NoSuchTable)
             | Some t \<Rightarrow>
                 if deviceID \<notin> set (identifiers t) then Inl (DriverError ConstraintForeignKey)
                 else Inr (db\<lparr>playlists := Some
                   \<lparr>tbl_rows = tbl_rows p @
                      [\<lparr>pl_id = Suc (tbl_seq p), pl_device_identifier = deviceID,
                        pl_name = name, pl_url = playlistURL, pl_created_at = now e\<rparr>],
                    tbl_seq = Suc (tbl_seq p)\<rparr>\<rparr>)))"

text \<open>
  \<open>SELECT name, url, created_at FROM playlists WHERE device_identifier = ?
  ORDER BY created_at ASC, id ASC\<close>: the rows of the device, sorted on the pair
  (creation time, row id) in its lexicographic order.
\<close>

definition order_key :: "playlist_row \<Rightarrow> nat \<times> nat" where
  "order_key r = (pl_created_at r, pl_id r)"

definition rows_of :: "database \<Rightarrow> string \<Rightarrow> playlist_row list" where
  "rows_of db deviceID =
     (case playlists db of
        None \<Rightarrow> []
      | Some p \<Rightarrow> filter (\<lambda>r. pl_device_identifier r = deviceID) (tbl_rows p))"

definition select_playlists :: "env \<Rightarrow> database \<Rightarrow> string \<Rightarrow> go_error + playlist_row list" where
  "select_playlists e db deviceID =
     (if fails e QueryContext then Inl (DriverError IOFault)
      else case playlists db of
        None \<Rightarrow> Inl (DriverError NoSuchTable)
      | Some p \<Rightarrow> Inr (sort_key order_key (rows_of db deviceID)))"

text \<open>\<open>CREATE TABLE IF NOT EXISTS\<close>: a table that exists is left as it is.\<close>

definition create_devices_table :: "env \<Rightarrow> database \<Rightarrow> go_error + database" where
  "create_devices_table e db =
     (if fails e ExecCreateDevices then Inl (DriverError IOFault)
      else case devices db of
        None \<Rightarrow> Inr (db\<lparr>devices := Some \<lparr>tbl_rows = [], tbl_seq = 0\<rparr>\<rparr>)
      | Some _ \<Rightarrow> Inr db)"

definition create_playlists_table :: "env \<Rightarrow> database \<Rightarrow> go_error + database" where
  "create_playlists_table e db =
     (if fails e ExecCreatePlaylists then Inl (DriverError IOFault)
      else case playlists db of
        None \<Rightarrow> Inr (db\<lparr>playlists := Some \<lparr>tbl_rows = [], tbl_seq = 0\<rparr>\<rparr>)
      | Some _ \<Rightarrow> Inr db)"

subsection \<open>Transactions\<close>

text \<open>
  A \<open>sql.Tx\<close> on the single connection: the database as the connection sees it, the
  state \<open>BEGIN\<close> found (restored when the transaction does not commit), and whether
  \<open>Commit\<close> or \<open>Rollback\<close> has been called. SQLite commits atomically: a \<open>COMMIT\<close> that
  fails leaves nothing behind (the driver rolls back), and so does a \<open>ROLLBACK\<close>, also
  when it reports an error.
\<close>

record tx =
  tx_db :: database
  tx_undo :: database
  tx_done :: bool

definition begin_tx :: "env \<Rightarrow> database \<Rightarrow> go_error + tx" where
  "begin_tx e db =
     (if fails e BeginTx then Inl (DriverError IOFault)
      else Inr \<lparr>tx_db = db, tx_undo = db, tx_done = False\<rparr>)"

definition commit :: "env \<Rightarrow> tx \<Rightarrow> go_error option \<times> tx" where
  "commit e t =
     (if tx_done t then (Some ErrTxDone, t)
      else if fails e TxCommit
        then (Some (DriverError IOFault), t\<lparr>tx_db := tx_undo t, tx_done := True\<rparr>)
      else (None, t\<lparr>tx_done := True\<rparr>))"

definition rollback :: "env \<Rightarrow> tx \<Rightarrow> go_error option \<times> tx" where
  "rollback e t =
     (if tx_done t then (Some ErrTxDone, t)
      else (if fails e TxRollback then Some (DriverError IOFault) else None,
            t\<lparr>tx_db := tx_undo t, tx_done := True\<rparr>))"

subsection \<open>The methods of \<open>Store\<close>\<close>

text \<open>
  A \<open>*Store\<close> holds the connection; in the model it is the database the connection is
  open on, and a method returns its Go result together with the database it leaves.
\<close>

type_synonym Store = database

text \<open>
  \<open>migrate\<close>: the two \<open>CREATE TABLE IF NOT EXISTS\<close> statements, the second only when the
  first succeeded.
\<close>

definition migrate :: "env \<Rightarrow> database \<Rightarrow> go_error option \<times> database" where
  "migrate e db =
     (case create_devices_table e db of
        Inl err \<Rightarrow> (Some (Errorf ''creating devices table'' err), db)
      | Inr db1 \<Rightarrow>
          (case create_playlists_table e db1 of
             Inl err \<Rightarrow> (Some (Errorf ''creating playlists table'' err), db1)
           | Inr db2 \<Rightarrow> (None, db2)))"

text \<open>
  \<open>New\<close>, on the database found at \<open>dbPath\<close> (\<open>no_database\<close> when there is no file yet).
  In the branch for a failed \<open>migrate\<close> the source declares a second \<open>err\<close> for the result
  of \<open>db.Close()\<close> and returns that one on both paths.
\<close>

definition New :: "env \<Rightarrow> database \<Rightarrow> (Store option \<times> go_error option) \<times> database" where
  "New e db =
     (if fails e MkdirAll
        then ((None, Some (Errorf ''creating database directory'' (DriverError IOFault))), db)
      else if fails e SqlOpen
        then ((None, Some (Errorf ''opening sqlite database'' (DriverError IOFault))), db)
      else case migrate e db of
        (Some err, db') \<Rightarrow>
          (if fails e DbClose then ((None, Some (DriverError IOFault)), db')
           else ((None, None), db'))
      | (None, db') \<Rightarrow> ((Some db', None), db'))"

text \<open>\<open>CreateDevice\<close>: the insert that ignores a conflict, then \<open>RowsAffected\<close>.\<close>

definition CreateDevice :: "env \<Rightarrow> Store \<Rightarrow> string \<Rightarrow> (bool \<times> go_error option) \<times> Store" where
  "CreateDevice e s deviceID =
     (case insert_device e DoNothing s deviceID of
        Inl err \<Rightarrow> ((False, Some (Errorf ''inserting device'' err)), s)
      | Inr (affected, s') \<Rightarrow>
          if fails e RowsAffected
            then ((False, Some (Errorf ''checking insert result'' (DriverError IOFault))), s')
          else ((0 < affected, None), s'))"

text \<open>
  The body of \<open>AddPlaylist\<close> after \<open>BeginTx\<close>: the value assigned to the named result
  \<open>err\<close> at the \<open>return\<close>, and the transaction.
\<close>

definition AddPlaylist_body ::
    "env \<Rightarrow> tx \<Rightarrow> string \<Rightarrow> string \<Rightarrow> string \<Rightarrow> go_error option \<times> tx" where
  "AddPlaylist_body e t deviceID name playlistURL =
     (case device_check e (tx_db t) deviceID of
        Some err \<Rightarrow>
          (if errors_Is err ErrNoRows then (Some ErrDeviceNotFound, t)
           else (Some (Errorf ''checking device existence'' err), t))
      | None \<Rightarrow>
          (case insert_playlist e (tx_db t) deviceID name playlistURL of
             Inl err \<Rightarrow> (Some (Errorf ''inserting playlist'' err), t)
           | Inr db' \<Rightarrow>
               (case commit e (t\<lparr>tx_db := db'\<rparr>) of
                  (Some err, t') \<Rightarrow> (Some (Errorf ''committing playlist insert'' err), t')
                | (None, t') \<Rightarrow> (None, t'))))"

text \<open>
  The deferred function: when \<open>err\<close> is set, roll back, and replace \<open>err\<close> when the
  rollback fails with anything but \<open>sql.ErrTxDone\<close>.
\<close>

definition AddPlaylist_deferred :: "env \<Rightarrow> go_error option \<times> tx \<Rightarrow> go_error option \<times> tx" where
  "AddPlaylist_deferred e r =
     (case r of
        (None, t) \<Rightarrow> (None, t)
      | (Some err, t) \<Rightarrow>
          (case rollback e t of
             (Some rollbackErr, t') \<Rightarrow>
               (if \<not> errors_Is rollbackErr ErrTxDone
                  then (Some (ErrorfRollback rollbackErr err), t')
                else (Some err, t'))
           | (None, t') \<Rightarrow> (Some err, t')))"

definition AddPlaylist ::
    "env \<Rightarrow> Store \<Rightarrow> string \<Rightarrow> string \<Rightarrow> string \<Rightarrow> go_error option \<times> Store" where
  "AddPlaylist e s deviceID name playlistURL =
     (case begin_tx e s of
        Inl err \<Rightarrow> (Some (Errorf ''starting transaction'' err), s)
      | Inr t \<Rightarrow>
          (case AddPlaylist_deferred e (AddPlaylist_body e t deviceID name playlistURL) of
             (err, t') \<Rightarrow> (err, tx_db t')))"

text \<open>The loop of \<open>ListPlaylists\<close> over the result rows; \<open>i\<close> counts the calls of \<open>Scan\<close>.\<close>

fun scan_rows :: "env \<Rightarrow> nat \<Rightarrow> playlist_row list \<Rightarrow> Playlist list \<Rightarrow> go_error + Playlist list" where
  "scan_rows e i [] acc = Inr acc"
| "scan_rows e i (r # rs) acc =
     (if fails e (RowsScan i) then Inl (DriverError IOFault)
      else scan_rows e (Suc i) rs
        (acc @ [\<lparr>Name = pl_name r, URL = pl_url r, CreatedAt = pl_created_at r\<rparr>]))"

text \<open>\<open>ListPlaylists\<close> reads only: \<open>(nil, err)\<close> is \<open>Inl err\<close>, \<open>(playlists, nil)\<close> is \<open>Inr\<close>.\<close>

definition ListPlaylists :: "env \<Rightarrow> Store \<Rightarrow> string \<Rightarrow> go_error + Playlist list" where
  "ListPlaylists e s deviceID =
     (case device_check e s deviceID of
        Some err \<Rightarrow>
          (if errors_Is err ErrNoRows then Inl ErrDeviceNotFound
           else Inl (Errorf ''checking device existence'' err))
      | None \<Rightarrow>
          (case select_playlists e s deviceID of
             Inl err \<Rightarrow> Inl (Errorf ''fetching playlists'' err)
           | Inr rows \<Rightarrow>
               (case scan_rows e 0 rows [] of
                  Inl err \<Rightarrow> Inl (Errorf ''scanning playlist'' err)
                | Inr pls \<Rightarrow>
                    if fails e RowsErr
                      then Inl (Errorf ''iterating playlists'' (DriverError IOFault))
                    else Inr pls)))"

subsection \<open>Sequences of calls\<close>

datatype call =
    RegisterDevice env string
  | AttachPlaylist env string string string
  | ListCall env string

fun exec_call :: "call \<Rightarrow> Store \<Rightarrow> Store" where
  "exec_call (RegisterDevice e d) s = snd (CreateDevice e s d)"
| "exec_call (AttachPlaylist e d n u) s = snd (AddPlaylist e s d n u)"
| "exec_call (ListCall e d) s = s"

fun run :: "call list \<Rightarrow> Store \<Rightarrow> Store" where
  "run [] s = s"
| "run (c # cs) s = run cs (exec_call c s)"

subsection \<open>Observations on a store\<close>

definition registered :: "Store \<Rightarrow> string \<Rightarrow> bool" where
  "registered s d = (case devices s of None \<Rightarrow> False | Some t \<Rightarrow> d \<in> set (identifiers t))"

definition device_rows :: "Store \<Rightarrow> string \<Rightarrow> device_row list" where
  "device_rows s d =
     (case devices s of
        None \<Rightarrow> []
      | Some t \<Rightarrow> filter (\<lambda>r. dev_identifier r = d) (tbl_rows t))"

definition all_devices :: "Store \<Rightarrow> device_row list" where
  "all_devices s = (case devices s of None \<Rightarrow> [] | Some t \<Rightarrow> tbl_rows t)"

definition all_playlists :: "Store \<Rightarrow> playlist_row list" where
  "all_playlists s = (case playlists s of None \<Rightarrow> [] | Some p \<Rightarrow> tbl_rows p)"

definition playlist_of :: "playlist_row \<Rightarrow> Playlist" where
  "playlist_of r = \<lparr>Name = pl_name r, URL = pl_url r, CreatedAt = pl_created_at r\<rparr>"

text \<open>Referential integrity: every playlist row names a device row.\<close>

definition ref_integrity :: "Store \<Rightarrow> bool" where
  "ref_integrity s = list_all (\<lambda>r. registered s (pl_device_identifier r)) (all_playlists s)"

text \<open>
  What every store the program can produce satisfies: both tables exist, every playlist
  row names a device row, and the playlist ids grow strictly along the insertion order
  and never exceed the table's counter.
\<close>

definition store_ok :: "Store \<Rightarrow> bool" where
  "store_ok s =
     (case devices s of
        None \<Rightarrow> False
      | Some t \<Rightarrow>
          (case playlists s of
             None \<Rightarrow> False
           | Some p \<Rightarrow>
               list_all (\<lambda>r. pl_device_identifier r \<in> set (identifiers t)) (tbl_rows p) \<and>
               sorted_wrt (<) (map pl_id (tbl_rows p)) \<and>
               list_all (\<lambda>r. pl_id r \<le> tbl_seq p) (tbl_rows p)))"

subsection \<open>The request adapter's \<open>addPlaylist\<close>\<close>

text \<open>
  \<open>API.addPlaylist\<close> of the \<open>api\<close> package, from the decoded JSON body on (\<open>None\<close> when
  decoding failed). \<open>strings.TrimSpace\<close> and \<open>url.Parse\<close> belong to the Go standard
  library and are parameters here; \<open>url.Parse\<close> yields the scheme and the host it found.
\<close>

record playlistRequest =
  req_Name :: string
  req_URL :: string

datatype response =
    BadRequest string
  | NotFound string
  | InternalServerError
  | Created string string string

definition validateURL :: "(string \<Rightarrow> go_error + string \<times> string) \<Rightarrow> string \<Rightarrow> bool" where
  "validateURL url_Parse raw =
     (case url_Parse raw of
        Inl err \<Rightarrow> False
      | Inr (scheme, host) \<Rightarrow> \<not> (scheme = [] \<or> host = []))"

definition addPlaylist ::
    "(string \<Rightarrow> string) \<Rightarrow> (string \<Rightarrow> go_error + string \<times> string) \<Rightarrow>
     env \<Rightarrow> Store \<Rightarrow> string \<Rightarrow> playlistRequest option \<Rightarrow> response \<times> Store" where
  "addPlaylist TrimSpace url_Parse e s deviceID body =
     (case body of
        None \<Rightarrow> (BadRequest ''invalid JSON payload'', s)
      | Some req \<Rightarrow>
          (let name = TrimSpace (req_Name req); url = TrimSpace (req_URL req) in
           if name = [] then (BadRequest ''name is required'', s)
           else if url = [] then (BadRequest ''url is required'', s)
           else if \<not> validateURL url_Parse url
             then (BadRequest ''url must be a valid absolute URL'', s)
           else case AddPlaylist e s deviceID name url of
             (Some err, s') \<Rightarrow>
               (if errors_Is err ErrDeviceNotFound then (NotFound ''device not found'', s')
                else (InternalServerError, s'))
           | (None, s') \<Rightarrow> (Created deviceID name url, s')))"

subsection \<open>A store to run the methods on\<close>

text \<open>A database with the device \<open>device-123\<close>, registered at time 10, and no playlist.\<close>

definition one_device :: Store where
  "one_device =
     \<lparr>devices = Some
        \<lparr>tbl_rows = [\<lparr>dev_id = 1, dev_identifier = ''device-123'', dev_created_at = 10\<rparr>],
         tbl_seq = 1\<rparr>,
      playlists = Some \<lparr>tbl_rows = [], tbl_seq = 0\<rparr>\<rparr>"

text \<open>An environment at time \<open>t\<close> in which exactly the given call fails.\<close>

definition failing :: "step \<Rightarrow> nat \<Rightarrow> env" where
  "failing st t = \<lparr>now = t, fails = (\<lambda>x. x = st), burns_rowid = False\<rparr>"

text \<open>The database \<open>New\<close> leaves where there was none: both tables, no row.\<close>

definition fresh_store :: Store where
  "fresh_store =
     \<lparr>devices = Some \<lparr>tbl_rows = [], tbl_seq = 0\<rparr>,
      playlists = Some \<lparr>tbl_rows = [], tbl_seq = 0\<rparr>\<rparr>"

section \<open>Properties\<close>

subsection \<open>Evaluation and the outcomes of the methods\<close>

lemmas model_defs =
  New_def migrate_def create_devices_table_def create_playlists_table_def no_database_def
  CreateDevice_def insert_device_def AddPlaylist_def begin_tx_def AddPlaylist_body_def
  AddPlaylist_deferred_def device_check_def insert_playlist_def commit_def rollback_def
  ListPlaylists_def select_playlists_def rows_of_def order_key_def identifiers_def
  registered_def max_rowid_def fresh_store_def

lemmas example_defs = quiet_def failing_def one_device_def

lemma scan_rows_quiet:
  "(\<And>i. \<not> fails e (RowsScan i)) \<Longrightarrow> scan_rows e i rs acc = Inr (acc @ map playlist_of rs)"
  by (induction rs arbitrary: i acc) (simp_all add: playlist_of_def)

text \<open>
  \<open>AddPlaylist\<close> has two outcomes: an error, with the database it found, or \<open>nil\<close>, with
  the database the \<open>INSERT\<close> produced, and then neither \<open>BeginTx\<close> nor \<open>Commit\<close> failed.
\<close>

lemma AddPlaylist_outcome:
  "(\<exists>err. AddPlaylist e s d n u = (Some err, s)) \<or>
   (\<exists>s'. AddPlaylist e s d n u = (None, s') \<and> insert_playlist e s d n u = Inr s' \<and>
      device_check e s d = None \<and> \<not> fails e BeginTx \<and> \<not> fails e TxCommit)"
  by (auto simp: AddPlaylist_def begin_tx_def AddPlaylist_body_def AddPlaylist_deferred_def
      commit_def rollback_def split: option.splits sum.splits prod.splits if_splits)

lemma AddPlaylist_quiet:
  assumes "devices s = Some t" "playlists s = Some p" "d \<in> set (identifiers t)"
    "tbl_seq p < max_rowid"
    "\<not> fails e BeginTx" "\<not> fails e QueryRowScan" "\<not> fails e ExecContext"
    "\<not> fails e TxCommit"
  shows "AddPlaylist e s d n u =
     (None, s\<lparr>playlists := Some
        \<lparr>tbl_rows = tbl_rows p @
           [\<lparr>pl_id = Suc (tbl_seq p), pl_device_identifier = d,
             pl_name = n, pl_url = u, pl_created_at = now e\<rparr>],
         tbl_seq = Suc (tbl_seq p)\<rparr>\<rparr>)"
  using assms
  by (simp add: AddPlaylist_def begin_tx_def AddPlaylist_body_def AddPlaylist_deferred_def
      device_check_def insert_playlist_def commit_def)

lemma AddPlaylist_unregistered_fails:
  assumes "\<not> registered s d"
  shows "\<exists>err. AddPlaylist e s d n u = (Some err, s)"
  using assms AddPlaylist_outcome [of e s d n u]
  by (auto simp: registered_def device_check_def split: option.splits if_splits)

lemma AddPlaylist_unregistered_error:
  assumes "devices s = Some t" "d \<notin> set (identifiers t)"
    "\<not> fails e BeginTx" "\<not> fails e QueryRowScan"
  shows "\<exists>err. fst (AddPlaylist e s d n u) = Some err \<and> errors_Is err ErrDeviceNotFound"
  using assms
  by (auto simp: AddPlaylist_def begin_tx_def AddPlaylist_body_def AddPlaylist_deferred_def
      device_check_def rollback_def)

lemma ListPlaylists_quiet:
  assumes "devices s = Some t" "playlists s = Some p" "d \<in> set (identifiers t)"
    "\<not> fails e QueryRowScan" "\<not> fails e QueryContext" "\<not> fails e RowsErr"
    "\<And>i. \<not> fails e (RowsScan i)"
  shows "ListPlaylists e s d = Inr (map playlist_of (sort_key order_key (rows_of s d)))"
  using assms
  by (simp add: ListPlaylists_def device_check_def select_playlists_def scan_rows_quiet)

lemma ListPlaylists_member:
  assumes "devices s = Some t" "playlists s = Some p" "d \<in> set (identifiers t)"
    "\<not> fails e QueryRowScan" "\<not> fails e QueryContext" "\<not> fails e RowsErr"
    "\<And>i. \<not> fails e (RowsScan i)" "r \<in> set (rows_of s d)"
  shows "\<exists>ps. ListPlaylists e s d = Inr ps \<and> playlist_of r \<in> set ps"
  using ListPlaylists_quiet [OF assms(1-7)] assms(8) by simp

text \<open>\<open>rows_of\<close> lists the rows of a device in the order they were attached.\<close>

lemma rows_of_AddPlaylist:
  assumes "AddPlaylist e s d n u = (None, s')"
  shows "\<exists>i. rows_of s' d = rows_of s d @
           [\<lparr>pl_id = i, pl_device_identifier = d, pl_name = n, pl_url = u,
             pl_created_at = now e\<rparr>]"
  using assms AddPlaylist_outcome [of e s d n u]
  by (auto simp: insert_playlist_def rows_of_def split: option.splits if_splits)

subsection \<open>The invariant\<close>

lemma insert_playlist_store_ok:
  "store_ok s \<Longrightarrow> insert_playlist e s d n u = Inr s' \<Longrightarrow> store_ok s'"
  by (auto simp: store_ok_def insert_playlist_def sorted_wrt_append list_all_iff
      less_Suc_eq_le le_Suc_eq split: option.splits if_splits)

lemma AddPlaylist_store_ok: "store_ok s \<Longrightarrow> store_ok (snd (AddPlaylist e s d n u))"
  using AddPlaylist_outcome [of e s d n u] by (auto dest: insert_playlist_store_ok)

lemma CreateDevice_store_ok: "store_ok s \<Longrightarrow> store_ok (snd (CreateDevice e s d))"
  by (auto simp: store_ok_def CreateDevice_def insert_device_def identifiers_def list_all_iff
      split: option.splits if_splits on_conflict.splits)

lemma run_store_ok: "store_ok s \<Longrightarrow> store_ok (run cs s)"
proof (induction cs arbitrary: s)
  case Nil
  then show ?case by simp
next
  case (Cons c cs)
  then show ?case
    by (cases c) (simp_all add: AddPlaylist_store_ok CreateDevice_store_ok)
qed

lemma New_no_database:
  "New e no_database = ((Some s, None), f) \<Longrightarrow> f = s \<and> s = fresh_store"
  by (auto simp: New_def migrate_def create_devices_table_def create_playlists_table_def
      no_database_def fresh_store_def split: if_splits sum.splits option.splits prod.splits)

lemma opened_run_store_ok:
  "New e no_database = ((Some s0, None), f) \<Longrightarrow> store_ok (run cs s0)"
  by (rule run_store_ok) (auto dest!: New_no_database simp: store_ok_def fresh_store_def)

lemma store_ok_unregistered_rows: "store_ok s \<Longrightarrow> \<not> registered s d \<Longrightarrow> rows_of s d = []"
  by (auto simp: store_ok_def registered_def rows_of_def list_all_iff filter_empty_conv
      split: option.splits)

lemma store_ok_rows_of_ids: "store_ok s \<Longrightarrow> sorted_wrt (<) (map pl_id (rows_of s d))"
  by (auto simp: store_ok_def rows_of_def sorted_wrt_map sorted_wrt_filter
      split: option.splits)

lemma sorted_order_key:
  "sorted (map pl_created_at rs) \<Longrightarrow> sorted_wrt (<) (map pl_id rs) \<Longrightarrow>
     sorted (map order_key rs)"
  by (induction rs) (auto simp: order_key_def)

text \<open>Opening a location again finds the schema and changes nothing.\<close>

lemma New_twice:
  assumes "New e1 db = ((Some s, None), f)"
    and "\<not> fails e2 MkdirAll" "\<not> fails e2 SqlOpen"
    and "\<not> fails e2 ExecCreateDevices" "\<not> fails e2 ExecCreatePlaylists"
  shows "f = s \<and> New e2 f = ((Some s, None), f)"
  using assms
  by (auto simp: migrate_def create_devices_table_def create_playlists_table_def New_def
      split: if_splits option.splits prod.splits sum.splits)

section \<open>The claims\<close>

text \<open>
  C1. A store is what \<open>New\<close> returned for a new location, after any sequence of calls.
  When the device \<open>d\<close> is not registered in it, \<open>AddPlaylist\<close> for \<open>d\<close> returns an error
  and leaves the database as it found it, whatever fails on the way, and no playlist row
  of \<open>d\<close> exists afterwards. When \<open>BeginTx\<close> and the existence query themselves do not
  fail, the error is \<open>ErrDeviceNotFound\<close> in the sense of \<open>errors.Is\<close> (it stays so when
  the deferred rollback wraps it).
\<close>

theorem AddPlaylist_unregistered_device:
  assumes "New e0 no_database = ((Some s0, None), f)" and "s = run cs s0"
    and "\<not> registered s d"
  shows "snd (AddPlaylist e s d n u) = s \<and>
         fst (AddPlaylist e s d n u) \<noteq> None \<and>
         rows_of (snd (AddPlaylist e s d n u)) d = [] \<and>
         (\<not> fails e BeginTx \<and> \<not> fails e QueryRowScan \<longrightarrow>
            (\<exists>err. fst (AddPlaylist e s d n u) = Some err \<and> errors_Is err ErrDeviceNotFound))"
proof -
  have ok: "store_ok s"
    using assms(1,2) by (simp add: opened_run_store_ok)
  obtain err where r: "AddPlaylist e s d n u = (Some err, s)"
    using AddPlaylist_unregistered_fails [OF assms(3)] by blast
  obtain t where t: "devices s = Some t" "d \<notin> set (identifiers t)"
    using ok assms(3) by (auto simp: store_ok_def registered_def split: option.splits)
  have "rows_of s d = []"
    using ok assms(3) by (rule store_ok_unregistered_rows)
  moreover have "\<not> fails e BeginTx \<and> \<not> fails e QueryRowScan \<longrightarrow>
      (\<exists>err. fst (AddPlaylist e s d n u) = Some err \<and> errors_Is err ErrDeviceNotFound)"
    using AddPlaylist_unregistered_error [OF t, of e n u] by blast
  ultimately show ?thesis
    using r by simp
qed

theorem AddPlaylist_unregistered_device_witness:
  "New (quiet 0) no_database = ((Some fresh_store, None), fresh_store) \<and>
   \<not> registered (run [RegisterDevice (quiet 1) ''device-123''] fresh_store) ''device-999'' \<and>
   AddPlaylist (quiet 5) (run [RegisterDevice (quiet 1) ''device-123''] fresh_store)
       ''device-999'' ''My playlist'' ''https://example.com/channel.m3u8'' =
     (Some ErrDeviceNotFound, run [RegisterDevice (quiet 1) ''device-123''] fresh_store) \<and>
   rows_of (run [RegisterDevice (quiet 1) ''device-123''] fresh_store) ''device-999'' = []"
proof -
  have o: "New (quiet 0) no_database = ((Some fresh_store, None), fresh_store)"
    by (simp add: model_defs example_defs)
  have u: "\<not> registered (run [RegisterDevice (quiet 1) ''device-123''] fresh_store)
             ''device-999''"
    by (simp add: model_defs example_defs)
  show ?thesis
    using o u AddPlaylist_unregistered_device [OF o refl u, of "quiet 5" "''My playlist''"
        "''https://example.com/channel.m3u8''"]
    by (simp add: model_defs example_defs)
qed

text \<open>
  C2. In any database that has the \<open>devices\<close> table and no row for \<open>d\<close>, two calls of
  \<open>CreateDevice\<close> for \<open>d\<close> during which the storage layer does not fail return
  \<open>(true, nil)\<close> and then \<open>(false, nil)\<close>, and exactly one row for \<open>d\<close> exists afterwards.
  Whatever fails during the second call, its error is never the \<open>UNIQUE\<close> violation.
  (Two row ids must be left: SQLite draws the id before it looks for the conflict.)
\<close>

theorem CreateDevice_twice:
  assumes "devices s = Some t" and "d \<notin> set (identifiers t)"
    and "Suc (tbl_seq t) < max_rowid"
    and "\<not> fails e1 ExecContext" and "\<not> fails e1 RowsAffected"
    and "\<not> fails e2 ExecContext" and "\<not> fails e2 RowsAffected"
  shows "fst (CreateDevice e1 s d) = (True, None) \<and>
         fst (CreateDevice e2 (snd (CreateDevice e1 s d)) d) = (False, None) \<and>
         length (device_rows (snd (CreateDevice e2 (snd (CreateDevice e1 s d)) d)) d) = 1 \<and>
         (\<forall>e err. snd (fst (CreateDevice e (snd (CreateDevice e1 s d)) d)) = Some err \<longrightarrow>
            \<not> errors_Is err (DriverError ConstraintUnique))"
  using assms
  by (auto simp: CreateDevice_def insert_device_def device_rows_def identifiers_def
      filter_empty_conv split: option.splits if_splits)

theorem CreateDevice_twice_witness:
  "devices fresh_store = Some \<lparr>tbl_rows = [], tbl_seq = 0\<rparr> \<and>
   ''device-123'' \<notin> set (identifiers \<lparr>tbl_rows = [], tbl_seq = 0\<rparr>) \<and>
   CreateDevice (quiet 10) fresh_store ''device-123'' = ((True, None), one_device) \<and>
   CreateDevice (quiet 20) one_device ''device-123'' = ((False, None), one_device) \<and>
   length (device_rows one_device ''device-123'') = 1"
  using CreateDevice_twice [of fresh_store "\<lparr>tbl_rows = [], tbl_seq = 0\<rparr>" "''device-123''"
      "quiet 10" "quiet 20"]
  by (simp add: model_defs example_defs device_rows_def)

text \<open>
  C3, as amended. \<open>AddPlaylist\<close> returns a Go \<open>error\<close> and nothing else: on success the
  caller receives \<open>nil\<close>. The creation time is the clock value SQLite read for
  \<open>CURRENT_TIMESTAMP\<close>; it is stored in the new row, and a caller sees it in the result of
  a later \<open>ListPlaylists\<close>.
\<close>

theorem AddPlaylist_success_returns_nil:
  assumes "devices s = Some t" and "playlists s = Some p" and "d \<in> set (identifiers t)"
    and "tbl_seq p < max_rowid"
    and "\<not> fails e BeginTx" and "\<not> fails e QueryRowScan" and "\<not> fails e ExecContext"
    and "\<not> fails e TxCommit"
    and "\<not> fails e' QueryRowScan" and "\<not> fails e' QueryContext" and "\<not> fails e' RowsErr"
    and "\<And>i. \<not> fails e' (RowsScan i)"
  shows "fst (AddPlaylist e s d n u) = None \<and>
         map pl_created_at (all_playlists (snd (AddPlaylist e s d n u))) =
           map pl_created_at (all_playlists s) @ [now e] \<and>
         (\<exists>ps. ListPlaylists e' (snd (AddPlaylist e s d n u)) d = Inr ps \<and>
            \<lparr>Name = n, URL = u, CreatedAt = now e\<rparr> \<in> set ps)"
proof -
  let ?r = "\<lparr>pl_id = Suc (tbl_seq p), pl_device_identifier = d,
             pl_name = n, pl_url = u, pl_created_at = now e\<rparr>"
  let ?s' = "s\<lparr>playlists := Some \<lparr>tbl_rows = tbl_rows p @ [?r], tbl_seq = Suc (tbl_seq p)\<rparr>\<rparr>"
  have a: "AddPlaylist e s d n u = (None, ?s')"
    using assms(1-8) by (rule AddPlaylist_quiet)
  have "\<exists>ps. ListPlaylists e' ?s' d = Inr ps \<and> playlist_of ?r \<in> set ps"
    by (rule ListPlaylists_member [where t = t]) (simp_all add: assms rows_of_def)
  then show ?thesis
    by (simp add: a all_playlists_def assms(2) playlist_of_def)
qed

theorem AddPlaylist_success_returns_nil_witness:
  "devices one_device = Some
     \<lparr>tbl_rows = [\<lparr>dev_id = 1, dev_identifier = ''device-123'', dev_created_at = 10\<rparr>],
      tbl_seq = 1\<rparr> \<and>
   playlists one_device = Some \<lparr>tbl_rows = [], tbl_seq = 0\<rparr> \<and>
   fst (AddPlaylist (quiet 100) one_device ''device-123'' ''My playlist''
          ''https://example.com/channel.m3u8'') = None \<and>
   ListPlaylists (quiet 150)
       (snd (AddPlaylist (quiet 100) one_device ''device-123'' ''My playlist''
          ''https://example.com/channel.m3u8'')) ''device-123'' =
     Inr [\<lparr>Name = ''My playlist'', URL = ''https://example.com/channel.m3u8'',
           CreatedAt = 100\<rparr>]"
  using AddPlaylist_success_returns_nil [of one_device
      "\<lparr>tbl_rows = [\<lparr>dev_id = 1, dev_identifier = ''device-123'', dev_created_at = 10\<rparr>],
        tbl_seq = 1\<rparr>"
      "\<lparr>tbl_rows = [], tbl_seq = 0\<rparr>" "''device-123''" "quiet 100" "quiet 150"
      "''My playlist''" "''https://example.com/channel.m3u8''"]
  by (simp add: model_defs example_defs all_playlists_def)

text \<open>
  C3 as stated fails: two successful calls that differ only in the clock return the same
  value, \<open>nil\<close>, while the rows they create carry the creation times 100 and 200. The
  value returned does not give the creation time.
\<close>

theorem AddPlaylist_result_without_timestamp:
  "fst (AddPlaylist (quiet 100) one_device ''device-123'' ''My playlist''
          ''https://example.com/channel.m3u8'') = None \<and>
   fst (AddPlaylist (quiet 200) one_device ''device-123'' ''My playlist''
          ''https://example.com/channel.m3u8'') = None \<and>
   map pl_created_at (all_playlists (snd (AddPlaylist (quiet 100) one_device ''device-123''
          ''My playlist'' ''https://example.com/channel.m3u8''))) = [100] \<and>
   map pl_created_at (all_playlists (snd (AddPlaylist (quiet 200) one_device ''device-123''
          ''My playlist'' ''https://example.com/channel.m3u8''))) = [200]"
  by (simp add: model_defs example_defs all_playlists_def)

text \<open>
  C4. In a store reached from \<open>New\<close>, for a registered device and a call during which
  the storage layer does not fail, \<open>ListPlaylists\<close> returns the playlists of rows \<open>rs\<close>
  that are exactly the rows of the device (each once), sorted by creation time and then
  by row id. The row ids grow strictly along the order of attachment (\<open>rows_of\<close>, see
  \<open>rows_of_AddPlaylist\<close>), so among equal creation times the order is that of
  attachment; and whenever the creation times do not decrease along the order of
  attachment, in particular when they are all equal, the result is in the order of
  attachment.
\<close>

theorem ListPlaylists_ordered:
  assumes "New e0 no_database = ((Some s0, None), f)" and "s = run cs s0"
    and "registered s d"
    and "\<not> fails e QueryRowScan" and "\<not> fails e QueryContext" and "\<not> fails e RowsErr"
    and "\<And>i. \<not> fails e (RowsScan i)"
  shows "\<exists>rs. ListPlaylists e s d = Inr (map playlist_of rs) \<and>
           mset rs = mset (rows_of s d) \<and>
           sorted (map order_key rs) \<and>
           sorted_wrt (<) (map pl_id (rows_of s d)) \<and>
           (sorted (map pl_created_at (rows_of s d)) \<longrightarrow> rs = rows_of s d)"
proof -
  have ok: "store_ok s"
    using assms(1,2) by (simp add: opened_run_store_ok)
  then obtain t p where tp: "devices s = Some t" "playlists s = Some p"
    by (auto simp: store_ok_def split: option.splits)
  have d: "d \<in> set (identifiers t)"
    using assms(3) tp by (simp add: registered_def)
  let ?rs = "sort_key order_key (rows_of s d)"
  have "ListPlaylists e s d = Inr (map playlist_of ?rs)"
    using tp d assms(4-7) by (rule ListPlaylists_quiet)
  moreover have "mset ?rs = mset (rows_of s d)"
    by simp
  moreover have "sorted (map order_key ?rs)"
    by (rule sorted_sort_key)
  moreover have ids: "sorted_wrt (<) (map pl_id (rows_of s d))"
    using ok by (rule store_ok_rows_of_ids)
  moreover have "sorted (map pl_created_at (rows_of s d)) \<longrightarrow> ?rs = rows_of s d"
    using ids by (auto intro: sort_key_id_if_sorted sorted_order_key)
  ultimately show ?thesis
    by blast
qed

text \<open>
  Three playlists attached at the same second to \<open>device-123\<close>, with a playlist of
  another device in between, come back in the order of attachment.
\<close>

theorem ListPlaylists_ordered_witness:
  "New (quiet 0) no_database = ((Some fresh_store, None), fresh_store) \<and>
   registered (run
     [RegisterDevice (quiet 1) ''device-123'', RegisterDevice (quiet 2) ''device-456'',
      AttachPlaylist (quiet 50) ''device-123'' ''P1'' ''https://example.com/1.m3u8'',
      AttachPlaylist (quiet 50) ''device-456'' ''Q'' ''https://example.com/q.m3u8'',
      AttachPlaylist (quiet 50) ''device-123'' ''P2'' ''https://example.com/2.m3u8'',
      AttachPlaylist (quiet 50) ''device-123'' ''P3'' ''https://example.com/3.m3u8'']
     fresh_store) ''device-123'' \<and>
   ListPlaylists (quiet 60) (run
     [RegisterDevice (quiet 1) ''device-123'', RegisterDevice (quiet 2) ''device-456'',
      AttachPlaylist (quiet 50) ''device-123'' ''P1'' ''https://example.com/1.m3u8'',
      AttachPlaylist (quiet 50) ''device-456'' ''Q'' ''https://example.com/q.m3u8'',
      AttachPlaylist (quiet 50) ''device-123'' ''P2'' ''https://example.com/2.m3u8'',
      AttachPlaylist (quiet 50) ''device-123'' ''P3'' ''https://example.com/3.m3u8'']
     fresh_store) ''device-123'' =
   Inr [\<lparr>Name = ''P1'', URL = ''https://example.com/1.m3u8'', CreatedAt = 50\<rparr>,
        \<lparr>Name = ''P2'', URL = ''https://example.com/2.m3u8'', CreatedAt = 50\<rparr>,
        \<lparr>Name = ''P3'', URL = ''https://example.com/3.m3u8'', CreatedAt = 50\<rparr>]"
proof -
  have o: "New (quiet 0) no_database = ((Some fresh_store, None), fresh_store)"
    by (simp add: model_defs example_defs)
  show ?thesis
    using o ListPlaylists_ordered [OF o refl, of
      "[RegisterDevice (quiet 1) ''device-123'', RegisterDevice (quiet 2) ''device-456'',
        AttachPlaylist (quiet 50) ''device-123'' ''P1'' ''https://example.com/1.m3u8'',
        AttachPlaylist (quiet 50) ''device-456'' ''Q'' ''https://example.com/q.m3u8'',
        AttachPlaylist (quiet 50) ''device-123'' ''P2'' ''https://example.com/2.m3u8'',
        AttachPlaylist (quiet 50) ''device-123'' ''P3'' ''https://example.com/3.m3u8'']"
      "''device-123''" "quiet 60"]
    by (simp add: model_defs example_defs)
qed

text \<open>
  C5. In any database with both tables, \<open>ListPlaylists\<close> for a registered device without
  playlist rows returns the empty sequence and no error, \<open>ListPlaylists\<close> for an
  identifier that is not registered returns \<open>ErrDeviceNotFound\<close>, and the two results
  differ. (The storage layer does not fail during the calls.)
\<close>

theorem ListPlaylists_empty_or_not_found:
  assumes "devices s = Some t" and "playlists s = Some p"
    and "d1 \<in> set (identifiers t)" and "rows_of s d1 = []" and "d2 \<notin> set (identifiers t)"
    and "\<not> fails e1 QueryRowScan" and "\<not> fails e1 QueryContext" and "\<not> fails e1 RowsErr"
    and "\<not> fails e2 QueryRowScan"
  shows "ListPlaylists e1 s d1 = Inr [] \<and>
         ListPlaylists e2 s d2 = Inl ErrDeviceNotFound \<and>
         ListPlaylists e1 s d1 \<noteq> ListPlaylists e2 s d2"
  using assms
  by (simp add: ListPlaylists_def device_check_def select_playlists_def)

theorem ListPlaylists_empty_or_not_found_witness:
  "devices one_device = Some
     \<lparr>tbl_rows = [\<lparr>dev_id = 1, dev_identifier = ''device-123'', dev_created_at = 10\<rparr>],
      tbl_seq = 1\<rparr> \<and>
   playlists one_device = Some \<lparr>tbl_rows = [], tbl_seq = 0\<rparr> \<and>
   rows_of one_device ''device-123'' = [] \<and>
   ListPlaylists (quiet 30) one_device ''device-123'' = Inr [] \<and>
   ListPlaylists (quiet 30) one_device ''device-999'' = Inl ErrDeviceNotFound"
  using ListPlaylists_empty_or_not_found [of one_device
      "\<lparr>tbl_rows = [\<lparr>dev_id = 1, dev_identifier = ''device-123'', dev_created_at = 10\<rparr>],
        tbl_seq = 1\<rparr>"
      "\<lparr>tbl_rows = [], tbl_seq = 0\<rparr>" "''device-123''" "''device-999''"
      "quiet 30" "quiet 30"]
  by (simp add: model_defs example_defs)

text \<open>
  C6. When the \<open>INSERT\<close> or the \<open>Commit\<close> of \<open>AddPlaylist\<close> fails, in any database and for
  any arguments, the call returns an error and the database is the one it found: no
  playlist row has been added.
\<close>

theorem AddPlaylist_fault_rolls_back:
  assumes "fails e ExecContext \<or> fails e TxCommit"
  shows "snd (AddPlaylist e s d n u) = s \<and> fst (AddPlaylist e s d n u) \<noteq> None \<and>
         all_playlists (snd (AddPlaylist e s d n u)) = all_playlists s"
  using assms AddPlaylist_outcome [of e s d n u]
  by (auto simp: insert_playlist_def)

theorem AddPlaylist_fault_rolls_back_witness:
  "fails (failing TxCommit 30) TxCommit \<and>
   AddPlaylist (failing TxCommit 30) one_device ''device-123'' ''My playlist''
       ''https://example.com/channel.m3u8'' =
     (Some (Errorf ''committing playlist insert'' (DriverError IOFault)), one_device) \<and>
   AddPlaylist (failing ExecContext 30) one_device ''device-123'' ''My playlist''
       ''https://example.com/channel.m3u8'' =
     (Some (Errorf ''inserting playlist'' (DriverError IOFault)), one_device) \<and>
   all_playlists one_device = []"
  using AddPlaylist_fault_rolls_back [of "failing TxCommit 30" one_device "''device-123''"
      "''My playlist''" "''https://example.com/channel.m3u8''"]
  by (simp add: model_defs example_defs all_playlists_def)

text \<open>
  C7. In every store reached from the one \<open>New\<close> returned for a new location by any
  sequence of \<open>CreateDevice\<close>, \<open>AddPlaylist\<close> and \<open>ListPlaylists\<close> calls, with any failures
  of the storage layer on the way, every playlist row names a device row.
\<close>

theorem referential_integrity_reachable:
  assumes "New e0 no_database = ((Some s0, None), f)"
  shows "ref_integrity (run cs s0)"
  using opened_run_store_ok [OF assms, of cs]
  by (auto simp: store_ok_def ref_integrity_def registered_def all_playlists_def
      split: option.splits)

theorem referential_integrity_reachable_witness:
  "New (quiet 0) no_database = ((Some fresh_store, None), fresh_store) \<and>
   ref_integrity (run
     [AttachPlaylist (quiet 1) ''device-123'' ''early'' ''https://example.com/0.m3u8'',
      RegisterDevice (quiet 2) ''device-123'',
      AttachPlaylist (quiet 3) ''device-123'' ''My playlist'' ''https://example.com/channel.m3u8'',
      ListCall (quiet 4) ''device-123'',
      AttachPlaylist (quiet 5) ''device-999'' ''lost'' ''https://example.com/9.m3u8'']
     fresh_store) \<and>
   map pl_name (all_playlists (run
     [AttachPlaylist (quiet 1) ''device-123'' ''early'' ''https://example.com/0.m3u8'',
      RegisterDevice (quiet 2) ''device-123'',
      AttachPlaylist (quiet 3) ''device-123'' ''My playlist'' ''https://example.com/channel.m3u8'',
      ListCall (quiet 4) ''device-123'',
      AttachPlaylist (quiet 5) ''device-999'' ''lost'' ''https://example.com/9.m3u8'']
     fresh_store)) = [''My playlist'']"
proof -
  have o: "New (quiet 0) no_database = ((Some fresh_store, None), fresh_store)"
    by (simp add: model_defs example_defs ref_integrity_def all_playlists_def)
  show ?thesis
    using o referential_integrity_reachable [OF o, of
      "[AttachPlaylist (quiet 1) ''device-123'' ''early'' ''https://example.com/0.m3u8'',
        RegisterDevice (quiet 2) ''device-123'',
        AttachPlaylist (quiet 3) ''device-123'' ''My playlist''
          ''https://example.com/channel.m3u8'',
        ListCall (quiet 4) ''device-123'',
        AttachPlaylist (quiet 5) ''device-999'' ''lost'' ''https://example.com/9.m3u8'']"]
    by (simp add: model_defs example_defs ref_integrity_def all_playlists_def)
qed

text \<open>
  C8. On a database that already has both tables, with whatever rows, \<open>migrate\<close> leaves
  the database as it is, whether or not a statement fails. When the two statements do not
  fail it succeeds, \<open>New\<close> returns a store on the unchanged database, and \<open>New\<close> on what
  that call left returns the same once more.
\<close>

theorem migrate_idempotent:
  assumes "devices db = Some t" and "playlists db = Some p"
  shows "snd (migrate e db) = db \<and>
         (\<not> fails e ExecCreateDevices \<and> \<not> fails e ExecCreatePlaylists \<longrightarrow>
            migrate e db = (None, db) \<and>
            (\<not> fails e MkdirAll \<and> \<not> fails e SqlOpen \<longrightarrow>
               New e db = ((Some db, None), db) \<and> New e (snd (New e db)) = New e db))"
  using assms
  by (simp add: migrate_def create_devices_table_def create_playlists_table_def New_def)

theorem migrate_idempotent_witness:
  "devices one_device = Some
     \<lparr>tbl_rows = [\<lparr>dev_id = 1, dev_identifier = ''device-123'', dev_created_at = 10\<rparr>],
      tbl_seq = 1\<rparr> \<and>
   playlists one_device = Some \<lparr>tbl_rows = [], tbl_seq = 0\<rparr> \<and>
   migrate (quiet 70) one_device = (None, one_device) \<and>
   New (quiet 70) one_device = ((Some one_device, None), one_device) \<and>
   snd (migrate (failing ExecCreatePlaylists 70) one_device) = one_device"
  using migrate_idempotent [of one_device
      "\<lparr>tbl_rows = [\<lparr>dev_id = 1, dev_identifier = ''device-123'', dev_created_at = 10\<rparr>],
        tbl_seq = 1\<rparr>"
      "\<lparr>tbl_rows = [], tbl_seq = 0\<rparr>" "quiet 70"]
    migrate_idempotent [of one_device
      "\<lparr>tbl_rows = [\<lparr>dev_id = 1, dev_identifier = ''device-123'', dev_created_at = 10\<rparr>],
        tbl_seq = 1\<rparr>"
      "\<lparr>tbl_rows = [], tbl_seq = 0\<rparr>" "failing ExecCreatePlaylists 70"]
  by (simp add: model_defs example_defs)

text \<open>
  C9. \<open>CreateDevice\<close> for an identifier that is registered leaves the rows of \<open>devices\<close>
  as they are, the row of the identifier with its id and creation time among them, adds
  none, and leaves the \<open>playlists\<close> table as it is, whatever fails during the call.
\<close>

theorem CreateDevice_registered_unchanged:
  assumes "registered s d"
  shows "all_devices (snd (CreateDevice e s d)) = all_devices s \<and>
         device_rows (snd (CreateDevice e s d)) d = device_rows s d \<and>
         playlists (snd (CreateDevice e s d)) = playlists s"
  using assms
  by (auto simp: registered_def CreateDevice_def insert_device_def all_devices_def
      device_rows_def split: option.splits)

theorem CreateDevice_registered_unchanged_witness:
  "registered one_device ''device-123'' \<and>
   CreateDevice (quiet 99) one_device ''device-123'' = ((False, None), one_device) \<and>
   all_devices (snd (CreateDevice \<lparr>now = 99, fails = (\<lambda>_. False), burns_rowid = True\<rparr>
       one_device ''device-123'')) =
     [\<lparr>dev_id = 1, dev_identifier = ''device-123'', dev_created_at = 10\<rparr>]"
  using CreateDevice_registered_unchanged [of one_device "''device-123''"
      "\<lparr>now = 99, fails = (\<lambda>_. False), burns_rowid = True\<rparr>"]
  by (simp add: model_defs example_defs all_devices_def device_rows_def)

text \<open>
  C10. For a registered device, any \<open>name\<close> and any \<open>playlistURL\<close>, the empty string and
  strings with surrounding blanks or without a scheme included, \<open>AddPlaylist\<close> succeeds
  when the storage layer does not fail and appends the row with exactly these two
  strings. The checks are in the adapter: for the same strings in a request body,
  \<open>addPlaylist\<close> answers 400 and leaves the store alone when the trimmed name or the
  trimmed url is empty or \<open>validateURL\<close> rejects the url.
\<close>

theorem AddPlaylist_stores_as_given:
  assumes "devices s = Some t" and "playlists s = Some p" and "d \<in> set (identifiers t)"
    and "tbl_seq p < max_rowid"
    and "\<not> fails e BeginTx" and "\<not> fails e QueryRowScan" and "\<not> fails e ExecContext"
    and "\<not> fails e TxCommit"
  shows "fst (AddPlaylist e s d n u) = None \<and>
         all_playlists (snd (AddPlaylist e s d n u)) = all_playlists s @
           [\<lparr>pl_id = Suc (tbl_seq p), pl_device_identifier = d,
             pl_name = n, pl_url = u, pl_created_at = now e\<rparr>] \<and>
         (TrimSpace n = [] \<or> TrimSpace u = [] \<or> \<not> validateURL url_Parse (TrimSpace u) \<longrightarrow>
            (\<exists>msg. addPlaylist TrimSpace url_Parse e s d (Some \<lparr>req_Name = n, req_URL = u\<rparr>) =
               (BadRequest msg, s)))"
  using AddPlaylist_quiet [OF assms, of n u]
  by (auto simp: all_playlists_def assms(2) addPlaylist_def Let_def)

text \<open>
  The empty name and a url that is a blank followed by a word without scheme and host.
  For the adapter, \<open>TrimSpace\<close> is taken on these two strings only.
\<close>

theorem AddPlaylist_stores_as_given_witness:
  "devices one_device = Some
     \<lparr>tbl_rows = [\<lparr>dev_id = 1, dev_identifier = ''device-123'', dev_created_at = 10\<rparr>],
      tbl_seq = 1\<rparr> \<and>
   playlists one_device = Some \<lparr>tbl_rows = [], tbl_seq = 0\<rparr> \<and>
   fst (AddPlaylist (quiet 40) one_device ''device-123'' [] '' channel'') = None \<and>
   all_playlists (snd (AddPlaylist (quiet 40) one_device ''device-123'' [] '' channel'')) =
     [\<lparr>pl_id = 1, pl_device_identifier = ''device-123'', pl_name = [], pl_url = '' channel'',
       pl_created_at = 40\<rparr>] \<and>
   addPlaylist (\<lambda>x. if x = '' channel'' then ''channel'' else x) (\<lambda>x. Inr ([], []))
       (quiet 40) one_device ''device-123'' (Some \<lparr>req_Name = [], req_URL = '' channel''\<rparr>) =
     (BadRequest ''name is required'', one_device)"
  using AddPlaylist_stores_as_given [of one_device
      "\<lparr>tbl_rows = [\<lparr>dev_id = 1, dev_identifier = ''device-123'', dev_created_at = 10\<rparr>],
        tbl_seq = 1\<rparr>"
      "\<lparr>tbl_rows = [], tbl_seq = 0\<rparr>" "''device-123''" "quiet 40" "[]" "'' channel''"]
  by (simp add: model_defs example_defs all_playlists_def addPlaylist_def validateURL_def)

end
